theory Spec2Isabelle
  imports Main "HOL-Library.AList"
begin

section \<open>Strings\<close>

text \<open>
  Python strings are modelled as \<open>string\<close>: lists of characters with code points
  below 256 (Latin-1). The whitespace class, the case conversions and the digit class
  are Python's on these code points. Two lower-case letters, \<open>0xB5\<close> and
  \<open>0xFF\<close>, have upper-case forms beyond code point 255; \<open>upper\<close> leaves them as
  they are, which still is a character outside ASCII.
\<close>

definition is_space :: "char \<Rightarrow> bool" where
  "is_space c = (c \<in> set [CHR 0x09, CHR 0x0A, CHR 0x0B, CHR 0x0C, CHR 0x0D,
                            CHR 0x1C, CHR 0x1D, CHR 0x1E, CHR 0x1F, CHR '' '',
                            CHR 0x85, CHR 0xA0])"

definition is_digit :: "char \<Rightarrow> bool" where
  "is_digit c = (c \<in> set ''0123456789'')"

definition is_alpha :: "char \<Rightarrow> bool" where
  "is_alpha c = (c \<in> set ''abcdefghijklmnopqrstuvwxyzABCDEFGHIJKLMNOPQRSTUVWXYZ'')"

definition lower_char :: "char \<Rightarrow> char" where
  "lower_char c =
     (let n = of_char c :: nat
      in if (65 \<le> n \<and> n \<le> 90) \<or> (192 \<le> n \<and> n \<le> 222 \<and> n \<noteq> 215)
         then char_of (n + 32) else c)"

definition upper_char :: "char \<Rightarrow> string" where
  "upper_char c =
     (let n = of_char c :: nat
      in if (97 \<le> n \<and> n \<le> 122) \<or> (224 \<le> n \<and> n \<le> 254 \<and> n \<noteq> 247)
         then [char_of (n - 32)]
         else if n = 223 then ''SS'' else [c])"

definition lower :: "string \<Rightarrow> string" where
  "lower s = map lower_char s"

definition upper :: "string \<Rightarrow> string" where
  "upper s = concat (map upper_char s)"

text \<open>\<open>s.strip()\<close>\<close>

definition strip :: "string \<Rightarrow> string" where
  "strip s = rev (dropWhile is_space (rev (dropWhile is_space s)))"

text \<open>\<open>s.startswith(p)\<close>\<close>

fun startswith :: "string \<Rightarrow> string \<Rightarrow> bool" where
  "startswith s [] = True"
| "startswith [] (p # ps) = False"
| "startswith (c # cs) (p # ps) = (c = p \<and> startswith cs ps)"

text \<open>\<open>sub in s\<close>\<close>

fun contains :: "string \<Rightarrow> string \<Rightarrow> bool" where
  "contains [] sub = (sub = [])"
| "contains (c # cs) sub = (startswith (c # cs) sub \<or> contains cs sub)"

text \<open>\<open>s.split()\<close>: the maximal runs of non-whitespace characters; the second argument
  is the run being read.\<close>

fun split_ws :: "string \<Rightarrow> string \<Rightarrow> string list" where
  "split_ws [] w = (if w = [] then [] else [w])"
| "split_ws (c # cs) w =
     (if is_space c then (if w = [] then split_ws cs [] else w # split_ws cs [])
      else split_ws cs (w @ [c]))"

definition split :: "string \<Rightarrow> string list" where
  "split s = split_ws s []"

text \<open>\<open>sep.join(xs)\<close>\<close>

fun join :: "string \<Rightarrow> string list \<Rightarrow> string" where
  "join sep [] = []"
| "join sep [x] = x"
| "join sep (x # y # ys) = x @ sep @ join sep (y # ys)"

text \<open>Decimal digits of a natural number and of a non-negative integer, and
  \<open>str(n)\<close> for an integer.\<close>

fun nat_digits :: "nat \<Rightarrow> string" where
  "nat_digits n = (if n < 10 then [''0123456789'' ! n]
                   else nat_digits (n div 10) @ [''0123456789'' ! (n mod 10)])"

function int_digits :: "int \<Rightarrow> string" where
  "int_digits n = (if n < 10 then [''0123456789'' ! nat n]
                   else int_digits (n div 10) @ [''0123456789'' ! nat (n mod 10)])"
  by pat_completeness auto
termination by (relation "measure nat") auto

declare int_digits.simps [simp del]

definition int_str :: "int \<Rightarrow> string" where
  "int_str i = (if i < 0 then CHR ''-'' # int_digits (- i) else int_digits i)"

text \<open>\<open>s.zfill(w)\<close> for a string without a sign, and a number printed on two digits
  (\<open>'%02d'\<close>).\<close>

definition zfill :: "nat \<Rightarrow> string \<Rightarrow> string" where
  "zfill w s = replicate (w - length s) CHR ''0'' @ s"

definition two_digits :: "nat \<Rightarrow> string" where
  "two_digits n = zfill 2 (nat_digits n)"


section \<open>Floats\<close>

text \<open>
  A Python float is an IEEE 754 double: \<open>Double m e\<close> is the number \<open>m * 2 ^ e\<close>
  (\<open>Double 0 0\<close> is \<open>0.0\<close>), and there are the negative zero, the two infinities and
  NaN. The functions below work on the number a value denotes, so it may be written with
  any mantissa and exponent that give it; what they return has an odd mantissa.
\<close>

datatype pyfloat = Double int int | NegZero | PosInf | NegInf | NaN

text \<open>The bit length and the number of decimal digits of a positive integer, and a
  number \<open>m * 2 ^ e\<close> written with an odd mantissa.\<close>

function bit_length :: "int \<Rightarrow> int" where
  "bit_length n = (if n \<le> 0 then 0 else bit_length (n div 2) + 1)"
  by pat_completeness auto
termination by (relation "measure nat") auto

declare bit_length.simps [simp del]

function digit_count :: "int \<Rightarrow> int" where
  "digit_count n = (if n < 10 then 1 else digit_count (n div 10) + 1)"
  by pat_completeness auto
termination by (relation "measure nat") auto

declare digit_count.simps [simp del]

function odd_part :: "int \<Rightarrow> int \<Rightarrow> int \<times> int" where
  "odd_part m e = (if m \<le> 0 then (0, 0)
                   else if even m then odd_part (m div 2) (e + 1) else (m, e))"
  by pat_completeness auto
termination by (relation "measure (\<lambda>(m, e). nat m)") auto

declare odd_part.simps [simp del]

text \<open>Fractions are pairs of a numerator and a positive denominator. \<open>scale b n d k\<close>
  is the fraction \<open>n / d\<close> divided by \<open>b ^ k\<close>; \<open>at_least_power b n d k\<close> says
  that \<open>b ^ k \<le> n / d\<close>; \<open>round_half_even n d\<close> is the integer nearest to
  \<open>n / d\<close>, the even one of two that are equally near.\<close>

definition scale :: "int \<Rightarrow> int \<Rightarrow> int \<Rightarrow> int \<Rightarrow> int \<times> int" where
  "scale b n d k = (if 0 \<le> k then (n, d * b ^ nat k) else (n * b ^ nat (- k), d))"

definition at_least_power :: "int \<Rightarrow> int \<Rightarrow> int \<Rightarrow> int \<Rightarrow> bool" where
  "at_least_power b n d k = (case scale b n d k of (a, c) \<Rightarrow> c \<le> a)"

definition round_half_even :: "int \<Rightarrow> int \<Rightarrow> int" where
  "round_half_even num den =
     (let q = num div den; r = num mod den
      in if 2 * r < den then q else if den < 2 * r then q + 1
         else if even q then q else q + 1)"

text \<open>
  The double nearest to a fraction \<open>n / d \<ge> 0\<close>, ties to the even mantissa, as
  mantissa and exponent: 53 bits of mantissa, the exponent not below \<open>-1074\<close>
  (subnormal numbers); \<open>None\<close> when the rounded number is \<open>2 ^ 1024\<close> or more, beyond
  the doubles. \<open>decimal_double r q\<close> is the double nearest to \<open>r * 10 ^ q\<close>.
\<close>

definition round_double :: "int \<Rightarrow> int \<Rightarrow> (int \<times> int) option" where
  "round_double n d =
     (if n = 0 then Some (0, 0)
      else
        let k = bit_length n - bit_length d;
            fl = (if at_least_power 2 n d k then k else k - 1);
            e = max (fl - 52) (- 1074);
            m = (case scale 2 n d e of (a, c) \<Rightarrow> round_half_even a c)
        in if 1024 < bit_length m + e then None else Some (odd_part m e))"

definition decimal_double :: "int \<Rightarrow> int \<Rightarrow> (int \<times> int) option" where
  "decimal_double r q = (case scale 10 r 1 (- q) of (a, c) \<Rightarrow> round_double a c)"

text \<open>
  \<open>repr\<close> of a float: the digits of the shortest decimal that reads back as the same
  double. \<open>decimals n d digits\<close> are the two decimals \<open>r * 10 ^ q\<close> with that many
  significant digits next to \<open>n / d\<close>, the nearer one first (of two equally near,
  the one with an even last digit), or the one decimal equal to it. The decimal taken
  is the first that reads back, at the least number of digits; with 17 digits one always
  does. The digits are printed without trailing zeros, in positional notation when the
  decimal point falls within \<open>-4 < decpt \<le> 16\<close>, in exponent notation otherwise.
\<close>

definition decimals :: "int \<Rightarrow> int \<Rightarrow> int \<Rightarrow> (int \<times> int) list" where
  "decimals n d digits =
     (let k = digit_count n - digit_count d;
          p = (if at_least_power 10 n d k then k else k - 1);
          q = p - digits + 1
      in case scale 10 n d q of (a, c) \<Rightarrow>
           let f = a div c; r = a mod c
           in if r = 0 then [(f, q)]
              else if 2 * r < c \<or> (2 * r = c \<and> even f) then [(f, q), (f + 1, q)]
              else [(f + 1, q), (f, q)])"

definition shortest_decimal :: "int \<Rightarrow> int \<Rightarrow> int \<times> int" where
  "shortest_decimal m e =
     (case scale 2 m 1 (- e) of (n, d) \<Rightarrow>
        (case List.find (\<lambda>rq. decimal_double (fst rq) (snd rq) = Some (odd_part m e))
                (concat (map (decimals n d)
                           [1, 2, 3, 4, 5, 6, 7, 8, 9, 10, 11, 12, 13, 14, 15, 16, 17])) of
           Some rq \<Rightarrow> rq
         | None \<Rightarrow> hd (decimals n d 17)))"

definition decimal_repr :: "int \<Rightarrow> int \<Rightarrow> string" where
  "decimal_repr r q =
     (let ds0 = int_digits r;
          z = length (takeWhile (\<lambda>c. c = CHR ''0'') (rev ds0));
          ds = take (length ds0 - z) ds0;
          decpt = int (length ds0) + q
      in if - 4 < decpt \<and> decpt \<le> 16 then
           (if decpt \<le> 0 then ''0.'' @ replicate (nat (- decpt)) CHR ''0'' @ ds
            else if length ds \<le> nat decpt
              then ds @ replicate (nat decpt - length ds) CHR ''0'' @ ''.0''
            else take (nat decpt) ds @ ''.'' @ drop (nat decpt) ds)
         else
           take 1 ds @ (if 1 < length ds then ''.'' @ drop 1 ds else []) @ ''e''
             @ (if decpt - 1 < 0 then ''-'' else ''+'')
             @ zfill 2 (int_digits \<bar>decpt - 1\<bar>))"

fun float_repr :: "pyfloat \<Rightarrow> string" where
  "float_repr (Double m e) =
     (if m = 0 then ''0.0''
      else (if m < 0 then ''-'' else [])
           @ (case shortest_decimal \<bar>m\<bar> e of (r, q) \<Rightarrow> decimal_repr r q))"
| "float_repr NegZero = ''-0.0''"
| "float_repr PosInf = ''inf''"
| "float_repr NegInf = ''-inf''"
| "float_repr NaN = ''nan''"

text \<open>The float of a sign and a rounded magnitude, \<open>float(i)\<close> for an integer
  (\<open>None\<close>: \<open>OverflowError\<close>) and \<open>int(f)\<close> for a float, the truncation towards
  zero (\<open>None\<close>: \<open>OverflowError\<close> on an infinity, \<open>ValueError\<close> on NaN).\<close>

definition signed_double :: "bool \<Rightarrow> (int \<times> int) option \<Rightarrow> pyfloat" where
  "signed_double neg r =
     (case r of
        None \<Rightarrow> if neg then NegInf else PosInf
      | Some (m, e) \<Rightarrow> if neg then (if m = 0 then NegZero else Double (- m) e) else Double m e)"

definition int_float :: "int \<Rightarrow> pyfloat option" where
  "int_float i =
     (case round_double \<bar>i\<bar> 1 of
        None \<Rightarrow> None
      | Some (m, e) \<Rightarrow> Some (Double (if i < 0 then - m else m) e))"

fun int_of_float :: "pyfloat \<Rightarrow> int option" where
  "int_of_float (Double m e) =
     (let t = (if 0 \<le> e then \<bar>m\<bar> * 2 ^ nat e else \<bar>m\<bar> div 2 ^ nat (- e))
      in Some (if m < 0 then - t else t))"
| "int_of_float NegZero = Some 0"
| "int_of_float f = None"

fun float_nonzero :: "pyfloat \<Rightarrow> bool" where
  "float_nonzero (Double m e) = (m \<noteq> 0)"
| "float_nonzero NegZero = False"
| "float_nonzero f = True"


section \<open>Cell values\<close>

text \<open>
  The values a worksheet cell holds once the workbook is loaded: nothing, a boolean, an
  integer, a float, text (formulas and error codes are text starting with \<open>=\<close> and
  \<open>#\<close>), or a date and time.
\<close>

datatype pyval =
    PNone
  | PBool bool
  | PInt int
  | PFloat pyfloat
  | PStr string
  | PDatetime nat nat nat nat nat nat nat

text \<open>Python's truth value of a cell value (\<open>if v:\<close>).\<close>

fun truthy :: "pyval \<Rightarrow> bool" where
  "truthy PNone = False"
| "truthy (PBool b) = b"
| "truthy (PInt i) = (i \<noteq> 0)"
| "truthy (PFloat f) = float_nonzero f"
| "truthy (PStr s) = (s \<noteq> [])"
| "truthy (PDatetime y mo d h mi s us) = True"

text \<open>\<open>isinstance(v, str)\<close>\<close>

fun is_str :: "pyval \<Rightarrow> bool" where
  "is_str (PStr s) = True"
| "is_str v = False"

text \<open>\<open>str(v)\<close>\<close>

fun py_str :: "pyval \<Rightarrow> string" where
  "py_str PNone = ''None''"
| "py_str (PBool b) = (if b then ''True'' else ''False'')"
| "py_str (PInt i) = int_str i"
| "py_str (PFloat f) = float_repr f"
| "py_str (PStr s) = s"
| "py_str (PDatetime y mo d h mi s us) =
     zfill 4 (nat_digits y) @ ''-'' @ two_digits mo @ ''-'' @ two_digits d @ '' ''
       @ two_digits h @ '':'' @ two_digits mi @ '':'' @ two_digits s
       @ (if us = 0 then [] else ''.'' @ zfill 6 (nat_digits us))"


section \<open>Worksheets\<close>

text \<open>
  A worksheet is the grid of its cell values, row by row; rows and columns are numbered
  from 1 and a position outside the grid reads as an empty cell, as \<open>sheet.cell\<close> does.
  \<open>max_row\<close> and \<open>max_column\<close> are at least 1, also on an empty sheet. Reading a
  position to the right of the grid makes openpyxl create an empty cell there; the scans
  below then see more empty cells, which no test of theirs accepts, so the grid is kept
  as loaded.
\<close>

type_synonym worksheet = "pyval list list"

definition max_row :: "worksheet \<Rightarrow> nat" where
  "max_row sheet = max 1 (length sheet)"

definition max_column :: "worksheet \<Rightarrow> nat" where
  "max_column sheet = fold max (map length sheet) 1"

definition cell_value :: "worksheet \<Rightarrow> nat \<Rightarrow> nat \<Rightarrow> pyval" where
  "cell_value sheet r c =
     (if 1 \<le> r \<and> r \<le> length sheet \<and> 1 \<le> c \<and> c \<le> length (sheet ! (r - 1))
      then sheet ! (r - 1) ! (c - 1) else PNone)"

text \<open>\<open>sheet[r]\<close>: the cells of row \<open>r\<close>, columns 1 to \<open>max_column\<close>.\<close>

definition row_values :: "worksheet \<Rightarrow> nat \<Rightarrow> pyval list" where
  "row_values sheet r = map (cell_value sheet r) [1..<Suc (max_column sheet)]"


section \<open>Region locator\<close>

datatype error =
    ValueError string
  | TypeError string
  | AttributeError string
  | HTTPException nat string

text \<open>\<open>find_awg_header_row\<close>: the first row with a text cell containing the marker.\<close>

definition is_awg_cell :: "pyval \<Rightarrow> bool" where
  "is_awg_cell cell = (truthy cell \<and> is_str cell \<and> contains (py_str cell) ''AWG Item Code'')"

definition find_awg_header_row :: "worksheet \<Rightarrow> nat option" where
  "find_awg_header_row sheet =
     List.find (\<lambda>idx. list_ex is_awg_cell (row_values sheet idx)) [1..<Suc (max_row sheet)]"

text \<open>\<open>find_manufacturer_stop_row\<close>: the first row from \<open>start_row\<close> on whose column B
  is text containing \<open>manufacturer\<close> in any case.\<close>

definition is_stop_row :: "pyval list \<Rightarrow> bool" where
  "is_stop_row row =
     (1 < length row \<and> truthy (row ! 1) \<and> is_str (row ! 1)
      \<and> contains (lower (py_str (row ! 1))) ''manufacturer'')"

definition find_manufacturer_stop_row :: "worksheet \<Rightarrow> nat \<Rightarrow> nat option" where
  "find_manufacturer_stop_row sheet start_row =
     List.find (\<lambda>idx. is_stop_row (row_values sheet idx)) [start_row..<Suc (max_row sheet)]"

text \<open>\<open>normalize_column_name\<close>: a falsy name is returned as it is; otherwise the words
  of its string form joined by single spaces, stripped.\<close>

definition normalize_column_name :: "pyval \<Rightarrow> pyval" where
  "normalize_column_name name =
     (if \<not> truthy name then name
      else PStr (strip (join '' '' (split (py_str name)))))"

text \<open>The row record of one data row: a dictionary from header name to cell value, in
  insertion order. A cell is skipped when it is \<open>None\<close> or its string form starts
  with \<open>#\<close> or \<open>=\<close>.\<close>

type_synonym row_dict = "(string \<times> pyval) list"

definition skipped :: "pyval \<Rightarrow> bool" where
  "skipped v = (v = PNone \<or> startswith (py_str v) ''#'' \<or> startswith (py_str v) ''='')"

definition header_cell :: "pyval \<Rightarrow> pyval" where
  "header_cell h = (if truthy h then normalize_column_name h else PNone)"

definition row_step :: "pyval \<times> pyval \<Rightarrow> row_dict \<Rightarrow> row_dict" where
  "row_step hv row_data =
     (if truthy (fst hv) \<and> \<not> skipped (snd hv)
      then AList.update (py_str (fst hv)) (snd hv) row_data else row_data)"

definition build_row :: "pyval list \<Rightarrow> pyval list \<Rightarrow> row_dict" where
  "build_row headers row = fold row_step (zip headers row) []"

definition any_values :: "row_dict \<Rightarrow> bool" where
  "any_values row_data = list_ex truthy (map snd row_data)"

text \<open>\<open>extract_cosentino_data\<close> on the active sheet of the loaded workbook.\<close>

definition extract_cosentino_data ::
  "worksheet \<Rightarrow> error + (string list \<times> row_dict list \<times> nat \<times> nat option)" where
  "extract_cosentino_data sheet =
     (case find_awg_header_row sheet of
        None \<Rightarrow> Inl (ValueError ''Could not find 'AWG Item Code' header row'')
      | Some header_row_idx \<Rightarrow>
          let headers = map header_cell (row_values sheet header_row_idx);
              stop_row_idx = find_manufacturer_stop_row sheet (header_row_idx + 1);
              end_row = (case stop_row_idx of Some s \<Rightarrow> s | None \<Rightarrow> max_row sheet + 1);
              data_rows = filter any_values
                (map (\<lambda>row_idx. build_row headers (row_values sheet row_idx))
                     [header_row_idx + 1..<end_row]);
              valid_headers = map py_str (filter truthy headers)
          in Inr (valid_headers, data_rows, header_row_idx, stop_row_idx))"

section \<open>Dates\<close>

text \<open>
  The calendar arithmetic of Python's \<open>datetime\<close>: the proleptic Gregorian ordinal of
  a date (day 1 is 0001-01-01) and its inverse, written as in the library
  (\<open>_ymd2ord\<close>, \<open>_ord2ymd\<close>).
\<close>

definition is_leap :: "nat \<Rightarrow> bool" where
  "is_leap y = (y mod 4 = 0 \<and> (y mod 100 \<noteq> 0 \<or> y mod 400 = 0))"

definition days_in_month_tab :: "nat list" where
  "days_in_month_tab = [31, 28, 31, 30, 31, 30, 31, 31, 30, 31, 30, 31]"

definition days_before_month_tab :: "nat list" where
  "days_before_month_tab = [0, 31, 59, 90, 120, 151, 181, 212, 243, 273, 304, 334]"

definition days_before_year :: "nat \<Rightarrow> nat" where
  "days_before_year year =
     (let y = year - 1 in y * 365 + y div 4 + y div 400 - y div 100)"

definition days_before_month :: "nat \<Rightarrow> nat \<Rightarrow> nat" where
  "days_before_month year month =
     days_before_month_tab ! (month - 1) + (if 2 < month \<and> is_leap year then 1 else 0)"

definition ymd2ord :: "nat \<Rightarrow> nat \<Rightarrow> nat \<Rightarrow> nat" where
  "ymd2ord year month day = days_before_year year + days_before_month year month + day"

definition ord2ymd :: "nat \<Rightarrow> nat \<times> nat \<times> nat" where
  "ord2ymd ordinal =
     (let n0 = ordinal - 1;
          n400 = n0 div 146097; r400 = n0 mod 146097;
          n100 = r400 div 36524; r100 = r400 mod 36524;
          n4 = r100 div 1461; r4 = r100 mod 1461;
          n1 = r4 div 365; n = r4 mod 365;
          year = n400 * 400 + 1 + n100 * 100 + n4 * 4 + n1
      in if n1 = 4 \<or> n100 = 4 then (year - 1, 12, 31)
         else
           let leapyear = (n1 = 3 \<and> (n4 \<noteq> 24 \<or> n100 = 3));
               month = (n + 50) div 32;
               preceding = days_before_month_tab ! (month - 1)
                             + (if 2 < month \<and> leapyear then 1 else 0)
           in if n < preceding then
                (let month' = month - 1;
                     preceding' = preceding - (days_in_month_tab ! (month' - 1)
                                    + (if month' = 2 \<and> leapyear then 1 else 0))
                 in (year, month', n - preceding' + 1))
              else (year, month, n - preceding + 1))"

text \<open>\<open>d.strftime('%m/%d/%y')\<close>\<close>

definition strftime_mdy :: "nat \<times> nat \<times> nat \<Rightarrow> string" where
  "strftime_mdy ymd =
     (case ymd of (y, m, d) \<Rightarrow>
        two_digits m @ ''/'' @ two_digits d @ ''/'' @ two_digits (y mod 100))"

text \<open>
  \<open>timedelta(days=v)\<close> in microseconds for a numeric \<open>v\<close> (a boolean is an integer in
  Python). For a float the whole days are converted exactly; the fraction of a day is
  multiplied by the 86400000000 microseconds of a day in double arithmetic, and the sum
  is rounded to the nearest microsecond, ties to even. \<open>None\<close> when the conversion
  raises, on an infinity (\<open>OverflowError\<close>) and on NaN (\<open>ValueError\<close>).
\<close>

definition day_us :: int where
  "day_us = 86400000000"

fun float_days_us :: "pyfloat \<Rightarrow> int option" where
  "float_days_us (Double m e) =
     (let intpart = (if 0 \<le> e then \<bar>m\<bar> * 2 ^ nat e else \<bar>m\<bar> div 2 ^ nat (- e));
          fracnum = (if 0 \<le> e then 0 else \<bar>m\<bar> mod 2 ^ nat (- e));
          whole = intpart * day_us
      in if fracnum = 0 then Some (if m < 0 then - whole else whole)
         else
           (case round_double (fracnum * day_us) (2 ^ nat (- e)) of
              None \<Rightarrow> None
            | Some (m2, e2) \<Rightarrow>
                let us = (if 0 \<le> e2 then whole + m2 * 2 ^ nat e2
                          else round_half_even (whole * 2 ^ nat (- e2) + m2) (2 ^ nat (- e2)))
                in Some (if m < 0 then - us else us)))"
| "float_days_us NegZero = Some 0"
| "float_days_us f = None"

fun timedelta_days :: "pyval \<Rightarrow> int option" where
  "timedelta_days (PBool b) = Some (if b then day_us else 0)"
| "timedelta_days (PInt n) = Some (n * day_us)"
| "timedelta_days (PFloat f) = float_days_us f"
| "timedelta_days v = None"

text \<open>
  \<open>datetime(1899, 12, 30) + timedelta(days=v)\<close>, as the date of the result; \<open>None\<close>
  when the arithmetic raises: in the conversion of the day count, or with
  \<open>OverflowError\<close> when the result leaves the years 1 to 9999 (the bound on
  \<open>timedelta\<close> itself is wider).
\<close>

definition excel_date :: "pyval \<Rightarrow> (nat \<times> nat \<times> nat) option" where
  "excel_date v =
     (case timedelta_days v of
        None \<Rightarrow> None
      | Some us \<Rightarrow>
          let ordinal = int (ymd2ord 1899 12 30) + us div day_us
          in if 1 \<le> ordinal \<and> ordinal \<le> int (ymd2ord 9999 12 31)
             then Some (ord2ymd (nat ordinal)) else None)"


section \<open>Label-anchored field extractor\<close>

record deal_header =
  deal_name :: string
  vendor_id :: string
  deal_start_date :: string
  deal_end_date :: string
  deal_cost_date :: string

text \<open>\<open>isinstance(v, datetime)\<close> and \<open>isinstance(v, (int, float))\<close>\<close>

fun is_datetime :: "pyval \<Rightarrow> bool" where
  "is_datetime (PDatetime y mo d h mi s us) = True"
| "is_datetime v = False"

fun is_number :: "pyval \<Rightarrow> bool" where
  "is_number (PBool b) = True"
| "is_number (PInt i) = True"
| "is_number (PFloat f) = True"
| "is_number v = False"

fun datetime_ymd :: "pyval \<Rightarrow> nat \<times> nat \<times> nat" where
  "datetime_ymd (PDatetime y mo d h mi s us) = (y, mo, d)"
| "datetime_ymd v = (0, 0, 0)"

definition other_labels :: "string list" where
  "other_labels = [''deal start date'', ''deal end date'', ''deal cost date'', ''broker'',
                   ''sales rep'']"

text \<open>The vendor value next to a \<open>manufacturer\<close> label at \<open>(r, c)\<close>: the cell two
  columns to the right when it is non-empty (and then only if it is not another label),
  otherwise the first acceptable cell at offsets 1 to 9.\<close>

definition vendor_value :: "pyval \<Rightarrow> string option" where
  "vendor_value v =
     (if truthy v \<and> strip (py_str v) \<noteq> [] then
        (let val_str = strip (py_str v)
         in if lower val_str \<notin> set other_labels then Some val_str else None)
      else None)"

fun vendor_fallback :: "worksheet \<Rightarrow> nat \<Rightarrow> nat \<Rightarrow> nat list \<Rightarrow> string option" where
  "vendor_fallback sheet r c [] = None"
| "vendor_fallback sheet r c (offset # rest) =
     (case vendor_value (cell_value sheet r (c + offset)) of
        Some val_str \<Rightarrow> Some val_str
      | None \<Rightarrow> vendor_fallback sheet r c rest)"

definition vendor_probe :: "worksheet \<Rightarrow> nat \<Rightarrow> nat \<Rightarrow> string option" where
  "vendor_probe sheet r c =
     (let vendor_cell = cell_value sheet r (c + 2)
      in if truthy vendor_cell \<and> strip (py_str vendor_cell) \<noteq> []
         then vendor_value vendor_cell
         else vendor_fallback sheet r c [1..<10])"

text \<open>What one probed cell gives a date field: a date and time is formatted; a number
  is taken as a day count from 1899-12-30 and formatted, unless the arithmetic raises;
  anything else is taken as text unless blank. \<open>None\<close> means the probe goes on to the
  next offset.\<close>

definition date_candidate :: "pyval \<Rightarrow> string option" where
  "date_candidate v =
     (if truthy v then
        (if is_datetime v then Some (strftime_mdy (datetime_ymd v))
         else if is_number v then
           (case excel_date v of
              Some ymd \<Rightarrow> Some (strftime_mdy ymd)
            | None \<Rightarrow> None)
         else if strip (py_str v) \<noteq> [] then Some (strip (py_str v))
         else None)
      else None)"

fun date_probe :: "worksheet \<Rightarrow> nat \<Rightarrow> nat \<Rightarrow> nat list \<Rightarrow> string option" where
  "date_probe sheet r c [] = None"
| "date_probe sheet r c (offset # rest) =
     (case date_candidate (cell_value sheet r (c + offset)) of
        Some d \<Rightarrow> Some d
      | None \<Rightarrow> date_probe sheet r c rest)"

text \<open>The body of the scan of \<open>extract_deal_header\<close> at one cell. The three date
  branches of the source are the same code with another label and field.\<close>

definition header_step :: "worksheet \<Rightarrow> nat \<Rightarrow> nat \<Rightarrow> deal_header \<Rightarrow> deal_header" where
  "header_step sheet r c dh =
     (let cell = cell_value sheet r c
      in if truthy cell \<and> is_str cell then
           (let cell_value_lower = strip (lower (py_str cell))
            in if cell_value_lower = ''manufacturer'' then
                 (case vendor_probe sheet r c of
                    Some v \<Rightarrow> dh\<lparr>vendor_id := v\<rparr> | None \<Rightarrow> dh)
               else if contains cell_value_lower ''deal start date'' then
                 (case date_probe sheet r c [1..<12] of
                    Some d \<Rightarrow> dh\<lparr>deal_start_date := d\<rparr> | None \<Rightarrow> dh)
               else if contains cell_value_lower ''deal end date'' then
                 (case date_probe sheet r c [1..<12] of
                    Some d \<Rightarrow> dh\<lparr>deal_end_date := d\<rparr> | None \<Rightarrow> dh)
               else if contains cell_value_lower ''deal cost date'' then
                 (case date_probe sheet r c [1..<12] of
                    Some d \<Rightarrow> dh\<lparr>deal_cost_date := d\<rparr> | None \<Rightarrow> dh)
               else dh)
         else dh)"

text \<open>\<open>extract_deal_header\<close>: the scan over all rows and, in each row, all columns.
  No operation of the body raises on these values, so the handler that returns
  \<open>None\<close> is never entered and the result is always a header.\<close>

definition extract_deal_header :: "worksheet \<Rightarrow> string \<Rightarrow> deal_header option" where
  "extract_deal_header sheet name =
     Some (fold (\<lambda>row_idx dh.
                   fold (\<lambda>col_idx dh. header_step sheet row_idx col_idx dh)
                        [1..<Suc (max_column sheet)] dh)
                [1..<Suc (max_row sheet)]
                \<lparr>deal_name = name, vendor_id = [], deal_start_date = [],
                 deal_end_date = [], deal_cost_date = []\<rparr>)"

text \<open>\<open>extract_ad_zone_id\<close>: the labels, in the order of the dictionary; the probe for
  a marker at the given offsets; the scan.\<close>

definition tpr_labels :: "(string \<times> string) list" where
  "tpr_labels =
     [(''tpr all stores'', ''TPR All Stores''),
      (''tpr price chopper'', ''TPR Price Chopper''),
      (''tpr sunfresh/apple'', ''TPR Sunfresh/Apple''),
      (''tpr markets'', ''Tpr Markets''),
      (''tpr stores with prebooks only'', ''TPR Stores with Prebooks only'')]"

definition is_marker :: "pyval \<Rightarrow> bool" where
  "is_marker v =
     (truthy v \<and> upper (strip (py_str v)) \<in> set [''X'', ''YES'', ''Y'', ''1'', ''TRUE''])"

fun marker_probe :: "worksheet \<Rightarrow> nat \<Rightarrow> nat \<Rightarrow> nat list \<Rightarrow> bool" where
  "marker_probe sheet r c [] = False"
| "marker_probe sheet r c (offset # rest) =
     (if is_marker (cell_value sheet r (c + offset)) then True
      else marker_probe sheet r c rest)"

definition zone_step :: "worksheet \<Rightarrow> nat \<Rightarrow> nat \<Rightarrow> string list \<Rightarrow> string list" where
  "zone_step sheet r c marked_tpr_types =
     (let cell = cell_value sheet r c
      in if truthy cell \<and> is_str cell then
           (let cell_value_lower = lower (strip (py_str cell))
            in case List.find (\<lambda>kd. contains cell_value_lower (fst kd)) tpr_labels of
                 None \<Rightarrow> marked_tpr_types
               | Some kd \<Rightarrow>
                   if marker_probe sheet r c [1..<15] \<and> snd kd \<notin> set marked_tpr_types
                   then marked_tpr_types @ [snd kd] else marked_tpr_types)
         else marked_tpr_types)"

definition extract_ad_zone_id :: "worksheet \<Rightarrow> string" where
  "extract_ad_zone_id sheet =
     (let marked_tpr_types =
            fold (\<lambda>row_idx marked.
                    fold (\<lambda>col_idx marked. zone_step sheet row_idx col_idx marked)
                         [1..<Suc (max_column sheet)] marked)
                 [1..<Suc (max_row sheet)] []
      in if marked_tpr_types \<noteq> [] then join '' ~'' marked_tpr_types else [])"

section \<open>Transformation engine\<close>

text \<open>
  The library calls of \<open>apply_transformation\<close>. \<open>float(s)\<close> reads, between
  whitespace, an optional sign and then \<open>inf\<close>, \<open>infinity\<close> or \<open>nan\<close> in any case,
  or a decimal literal: digits with an optional point and an optional exponent, single
  underscores between digits. The literal is rounded to the nearest double, to an
  infinity when it is beyond the doubles. \<open>None\<close> stands for \<open>ValueError\<close>.
\<close>

definition digit_val :: "char \<Rightarrow> int" where
  "digit_val c = int (length (takeWhile (\<lambda>d. d \<noteq> c) ''0123456789''))"

definition digits_int :: "string \<Rightarrow> int" where
  "digits_int ds = fold (\<lambda>c n. 10 * n + digit_val c) ds 0"

fun take_digits :: "string \<Rightarrow> string \<times> string" where
  "take_digits [] = ([], [])"
| "take_digits [c] = (if is_digit c then ([c], []) else ([], [c]))"
| "take_digits (c # u # cs) =
     (if \<not> is_digit c then ([], c # u # cs)
      else if is_digit u then
        (case take_digits (u # cs) of (ds, rest) \<Rightarrow> (c # ds, rest))
      else if u = CHR ''_'' \<and> cs \<noteq> [] \<and> is_digit (hd cs) then
        (case take_digits cs of (ds, rest) \<Rightarrow> (c # ds, rest))
      else ([c], u # cs))"

definition read_sign :: "string \<Rightarrow> bool \<times> string" where
  "read_sign s =
     (case s of
        [] \<Rightarrow> (False, [])
      | c # cs \<Rightarrow> if c = CHR ''-'' then (True, cs)
                  else if c = CHR ''+'' then (False, cs) else (False, s))"

definition read_exponent :: "string \<Rightarrow> int option" where
  "read_exponent s =
     (case s of
        [] \<Rightarrow> Some 0
      | c # cs \<Rightarrow>
          if c = CHR ''e'' \<or> c = CHR ''E'' then
            (case read_sign cs of (neg, t) \<Rightarrow>
               (case take_digits t of (ds, rest) \<Rightarrow>
                  if ds \<noteq> [] \<and> rest = []
                  then Some (if neg then - digits_int ds else digits_int ds)
                  else None))
          else None)"

definition float_of_str :: "string \<Rightarrow> pyfloat option" where
  "float_of_str s =
     (case read_sign (strip s) of (neg, t1) \<Rightarrow>
        if lower t1 = ''inf'' \<or> lower t1 = ''infinity'' then Some (signed_double neg None)
        else if lower t1 = ''nan'' then Some NaN
        else
          (case take_digits t1 of (ip, t2) \<Rightarrow>
             (case (if t2 \<noteq> [] \<and> hd t2 = CHR ''.'' then take_digits (tl t2) else ([], t2))
              of (fp, t3) \<Rightarrow>
                if ip @ fp = [] then None
                else
                  (case read_exponent t3 of
                     None \<Rightarrow> None
                   | Some x \<Rightarrow>
                       Some (signed_double neg
                               (decimal_double (digits_int (ip @ fp)) (x - int (length fp))))))))"

text \<open>\<open>float(v)\<close>; \<open>None\<close> when it raises.\<close>

fun py_float :: "pyval \<Rightarrow> pyfloat option" where
  "py_float (PStr s) = float_of_str s"
| "py_float (PInt i) = int_float i"
| "py_float (PBool b) = Some (Double (if b then 1 else 0) 0)"
| "py_float (PFloat f) = Some f"
| "py_float v = None"

text \<open>\<open>re.sub(r'[^0-9.-]', '', s)\<close> and \<open>re.sub(r'[\s-]', '', s)\<close>\<close>

definition keep_number_chars :: "string \<Rightarrow> string" where
  "keep_number_chars s = filter (\<lambda>c. is_digit c \<or> c = CHR ''.'' \<or> c = CHR ''-'') s"

definition drop_space_dash :: "string \<Rightarrow> string" where
  "drop_space_dash s = filter (\<lambda>c. \<not> (is_space c \<or> c = CHR ''-'')) s"

text \<open>\<open>re.search(r'(\d+(?:\.\d+)?)', s)\<close>: the first run of digits, with a fraction when
  a point and a digit follow.\<close>

definition search_number :: "string \<Rightarrow> string option" where
  "search_number s =
     (let t = dropWhile (\<lambda>c. \<not> is_digit c) s;
          ds = takeWhile is_digit t;
          rest = dropWhile is_digit t
      in if t = [] then None
         else if rest \<noteq> [] \<and> hd rest = CHR ''.'' \<and> takeWhile is_digit (tl rest) \<noteq> []
           then Some (ds @ ''.'' @ takeWhile is_digit (tl rest))
         else Some ds)"

text \<open>\<open>re.search(r'([A-Za-z]+)', s)\<close>: the first run of letters.\<close>

definition search_alpha :: "string \<Rightarrow> string option" where
  "search_alpha s =
     (let t = dropWhile (\<lambda>c. \<not> is_alpha c) s
      in if t = [] then None else Some (takeWhile is_alpha t))"

text \<open>\<open>re.search(r'(\d+)\s*for', s, re.IGNORECASE)\<close>: the leftmost digit from which the
  run of digits is followed, after any whitespace, by \<open>for\<close> in any case.\<close>

fun search_price_mult :: "string \<Rightarrow> string option" where
  "search_price_mult [] = None"
| "search_price_mult (c # cs) =
     (if is_digit c
         \<and> startswith (lower (dropWhile is_space (dropWhile is_digit cs))) ''for''
      then Some (c # takeWhile is_digit cs)
      else search_price_mult cs)"

text \<open>\<open>s.isdigit()\<close>: the digits of this test include the superscripts one, two and
  three.\<close>

definition isdigit :: "string \<Rightarrow> bool" where
  "isdigit s = (s \<noteq> [] \<and> list_all (\<lambda>c. is_digit c \<or> c \<in> set [CHR 0xB2, CHR 0xB3, CHR 0xB9]) s)"

text \<open>\<open>rule.split(':')[1]\<close> and \<open>rule.split(':', 1)[1]\<close> for a rule with a colon.\<close>

definition after_colon :: "string \<Rightarrow> string" where
  "after_colon rule = tl (dropWhile (\<lambda>c. c \<noteq> CHR '':'') rule)"

definition second_field :: "string \<Rightarrow> string" where
  "second_field rule = takeWhile (\<lambda>c. c \<noteq> CHR '':'') (after_colon rule)"

text \<open>
  \<open>apply_transformation\<close>. An exception inside is caught and the value is returned
  unchanged: the \<open>None\<close> results of \<open>float_of_str\<close>, \<open>py_float\<close> and
  \<open>int_of_float\<close>. The call \<open>value.strftime(date_format)\<close> of the rule
  \<open>parse_date\<close> takes its format from the configuration, and what the C library
  prints for a directive depends on the platform, its locale and its time zone: the
  formatting is the parameter \<open>strftime\<close>.
\<close>

definition to_float :: "pyval \<Rightarrow> pyval" where
  "to_float v =
     (let cleaned = keep_number_chars (py_str v)
      in if cleaned \<noteq> [] then
           (case float_of_str cleaned of Some f \<Rightarrow> PFloat f | None \<Rightarrow> v)
         else PNone)"

definition apply_transformation ::
  "(pyval \<Rightarrow> string \<Rightarrow> string) \<Rightarrow> pyval \<Rightarrow> string \<Rightarrow> pyval" where
  "apply_transformation strftime v rule =
     (if rule = [] \<or> rule = ''none'' then v
      else if rule = ''to_number:float'' then
        (if truthy v then to_float v else PNone)
      else if contains rule ''Pick the Numeric values'' then
        (if truthy v then
           (case search_number (py_str v) of Some g \<Rightarrow> PStr g | None \<Rightarrow> v)
         else v)
      else if contains rule ''Pick Alpha values'' then
        (if truthy v then
           (case search_alpha (py_str v) of Some g \<Rightarrow> PStr g | None \<Rightarrow> v)
         else v)
      else if rule = ''normalize_upc'' then
        (let cleaned = drop_space_dash (py_str v)
         in PStr (if isdigit cleaned then zfill 12 cleaned else cleaned))
      else if startswith rule ''to_number:'' then
        (let num_type = second_field rule
         in if num_type = ''int'' then
              (if truthy v then
                 (case py_float v of
                    None \<Rightarrow> v
                  | Some f \<Rightarrow> (case int_of_float f of None \<Rightarrow> v | Some i \<Rightarrow> PInt i))
               else PNone)
            else if num_type = ''currency'' then to_float v
            else v)
      else if startswith rule ''parse_date:'' then
        (let date_format = second_field rule
         in if is_datetime v then PStr (strftime v date_format) else v)
      else if rule = ''map_deal_type'' then
        (if truthy v then PStr (py_str v) else PStr ''TPR'')
      else if rule = ''parse_price_mult'' then
        (case search_price_mult (py_str v) of
           Some g \<Rightarrow> PInt (digits_int g) | None \<Rightarrow> PInt 1)
      else if startswith rule ''literal:'' then PStr (after_colon rule)
      else if startswith rule ''coalesce:'' then (if truthy v then v else PNone)
      else if startswith rule ''calc:'' then v
      else v)"

section \<open>Mapping repository\<close>

text \<open>
  The tables of the processor once \<open>load_mapping_rules\<close> and \<open>load_output_template\<close>
  have read the configuration documents: the index (absent when the workbook has no
  \<open>file_mapping_index\<close> sheet), the mapping sheets by name, each with the rows
  \<open>load_column_mappings\<close> reads from it, and the template's column names. Names of
  companies and columns are text.
\<close>

record mapping_index_entry =
  company :: string
  file_name_pattern :: string
  mapping_sheet_name :: pyval
  description :: pyval
  category :: pyval

record column_mapping =
  input_column_name :: string
  output_column_name :: string
  transformation_rule :: string
  mapping_notes :: pyval

record file_processor =
  file_mapping_index :: "mapping_index_entry list option"
  mapping_rules :: "(string \<times> column_mapping list) list"
  output_template :: "string list"

fun get_mapping_sheet_by_company ::
  "mapping_index_entry list \<Rightarrow> string \<Rightarrow> string \<Rightarrow> pyval" where
  "get_mapping_sheet_by_company [] cname cat = PNone"
| "get_mapping_sheet_by_company (mapping # rest) cname cat =
     (if company mapping = cname \<and> category mapping = PStr cat
      then mapping_sheet_name mapping
      else get_mapping_sheet_by_company rest cname cat)"

definition load_column_mappings :: "file_processor \<Rightarrow> pyval \<Rightarrow> column_mapping list" where
  "load_column_mappings fp sheet_name =
     (case sheet_name of
        PStr s \<Rightarrow> (case map_of (mapping_rules fp) s of None \<Rightarrow> [] | Some ms \<Rightarrow> ms)
      | _ \<Rightarrow> [])"


section \<open>Row projector\<close>

text \<open>\<open>map_data_to_output\<close>: the output row starts with every template column at the
  empty string; the mappings are applied in order.\<close>

definition empty_output_row :: "string list \<Rightarrow> row_dict" where
  "empty_output_row template = fold (\<lambda>header d. AList.update header (PStr []) d) template []"

definition mapping_step ::
  "(pyval \<Rightarrow> string \<Rightarrow> string) \<Rightarrow> row_dict \<Rightarrow> string \<Rightarrow> column_mapping \<Rightarrow> row_dict
     \<Rightarrow> row_dict" where
  "mapping_step strftime input_row ad_zone_id mapping output_row =
     (let input_col = input_column_name mapping;
          output_col = output_column_name mapping;
          transform_rule = transformation_rule mapping
      in if output_col = ''Ad Zone Id'' then
           AList.update output_col (PStr ad_zone_id) output_row
         else if input_col \<noteq> ''N/A'' \<and> input_col \<in> set (map fst input_row) then
           (case map_of input_row input_col of
              None \<Rightarrow> output_row
            | Some v \<Rightarrow>
                let transformed_value = apply_transformation strftime v transform_rule
                in if output_col \<in> set (map fst output_row)
                   then AList.update output_col transformed_value output_row
                   else output_row)
         else output_row)"

definition map_data_to_output ::
  "(pyval \<Rightarrow> string \<Rightarrow> string) \<Rightarrow> string list \<Rightarrow> row_dict list \<Rightarrow> column_mapping list
     \<Rightarrow> string \<Rightarrow> row_dict list" where
  "map_data_to_output strftime template input_data mappings ad_zone_id =
     map (\<lambda>input_row. fold (mapping_step strftime input_row ad_zone_id) mappings
                          (empty_output_row template))
         input_data"


section \<open>Request\<close>

text \<open>
  \<open>process_file\<close> on the parsed upload. The two summaries it also returns are rendered
  text and take no part in the control flow; they are left out of the result. An
  exception raised in the body is caught at the end of the function: a \<open>ValueError\<close>
  becomes a response with status 400, any other exception, the \<open>HTTPException\<close>s
  raised in the body among them, a response with status 500 whose detail quotes it.
\<close>

record processing_result =
  standardized_data :: "row_dict list"
  output_headers :: "string list"
  company_out :: string
  deal_summary :: "deal_header option"

fun type_name :: "pyval \<Rightarrow> string" where
  "type_name PNone = ''NoneType''"
| "type_name (PBool b) = ''bool''"
| "type_name (PInt i) = ''int''"
| "type_name (PFloat f) = ''float''"
| "type_name (PStr s) = ''str''"
| "type_name (PDatetime y mo d h mi s us) = ''datetime.datetime''"

fun str_error :: "error \<Rightarrow> string" where
  "str_error (ValueError m) = m"
| "str_error (TypeError m) = m"
| "str_error (AttributeError m) = m"
| "str_error (HTTPException code detail) = nat_digits code @ '': '' @ detail"

definition process_file_body ::
  "(pyval \<Rightarrow> string \<Rightarrow> string) \<Rightarrow> bool \<Rightarrow> bool \<Rightarrow> file_processor \<Rightarrow> worksheet \<Rightarrow> string
     \<Rightarrow> string \<Rightarrow> error + processing_result" where
  "process_file_body strftime mapping_rules_exists output_template_exists fp sheet cname name =
     (if \<not> mapping_rules_exists then Inl (HTTPException 500 ''Mapping rules file not found'')
      else if \<not> output_template_exists
        then Inl (HTTPException 500 ''Output template file not found'')
      else
        (case file_mapping_index fp of
           None \<Rightarrow> Inl (TypeError ([CHR 0x27] @ ''NoneType' object is not iterable''))
         | Some index \<Rightarrow>
             let sheet_name = get_mapping_sheet_by_company index cname ''Deal Submissions''
             in if \<not> truthy sheet_name then
                  Inl (HTTPException 400
                        (''No mapping configuration found for company '' @ [CHR 0x27] @ cname
                           @ [CHR 0x27]
                           @ '' in Deal Submissions category. Please check your mapping rules.''))
                else
                  let mappings = load_column_mappings fp sheet_name;
                      deal_summary_dict = extract_deal_header sheet name;
                      ad_zone_id = extract_ad_zone_id sheet
                  in if \<not> is_str sheet_name then
                       Inl (AttributeError ([CHR 0x27] @ type_name sheet_name
                              @ [CHR 0x27] @ '' object has no attribute 'lower'' @ [CHR 0x27]))
                     else if contains (lower (py_str sheet_name)) ''cosentino'' then
                       (case extract_cosentino_data sheet of
                          Inl e \<Rightarrow> Inl e
                        | Inr (input_headers, data_rows, header_row_idx, stop_row_idx) \<Rightarrow>
                            Inr \<lparr>standardized_data =
                                   map_data_to_output strftime (output_template fp) data_rows
                                     mappings
                                     ad_zone_id,
                                 output_headers = output_template fp,
                                 company_out = cname,
                                 deal_summary = deal_summary_dict\<rparr>)
                     else Inl (HTTPException 400
                                 ''Only Cosentino TPR files are currently supported'')))"

definition process_file ::
  "(pyval \<Rightarrow> string \<Rightarrow> string) \<Rightarrow> bool \<Rightarrow> bool \<Rightarrow> file_processor \<Rightarrow> worksheet \<Rightarrow> string
     \<Rightarrow> string \<Rightarrow> error + processing_result" where
  "process_file strftime mapping_rules_exists output_template_exists fp sheet cname name =
     (case process_file_body strftime mapping_rules_exists output_template_exists fp sheet cname
             name of
        Inr result \<Rightarrow> Inr result
      | Inl (ValueError m) \<Rightarrow> Inl (HTTPException 400 m)
      | Inl e \<Rightarrow> Inl (HTTPException 500 (''Error processing file: '' @ str_error e)))"

section \<open>Example inputs\<close>

text \<open>A one-row sheet with a zone label in column A and an \<open>X\<close> \<open>k\<close> columns to
  its right.\<close>

definition zone_sheet :: "nat \<Rightarrow> worksheet" where
  "zone_sheet k = [PStr ''TPR All Stores'' # replicate (k - 1) PNone @ [PStr ''X'']]"

definition is_stop_marker :: "pyval \<Rightarrow> bool" where
  "is_stop_marker v = (is_str v \<and> contains (lower (py_str v)) ''manufacturer'')"

definition no_marker_sheet :: worksheet where
  "no_marker_sheet = [[PStr ''Item'', PInt 3], [PStr ''awg item code'', PNone]]"

definition sample_processor :: file_processor where
  "sample_processor =
     \<lparr>file_mapping_index = Some
        [\<lparr>company = ''Acme'', file_name_pattern = ''acme'', mapping_sheet_name = PStr ''Other'',
          description = PNone, category = PStr ''Price Changes''\<rparr>,
         \<lparr>company = ''Acme'', file_name_pattern = ''acme'',
          mapping_sheet_name = PStr ''Cosentino_TPR'', description = PNone,
          category = PStr ''Deal Submissions''\<rparr>,
         \<lparr>company = ''Acme'', file_name_pattern = ''acme'', mapping_sheet_name = PStr ''Second'',
          description = PNone, category = PStr ''Deal Submissions''\<rparr>],
      mapping_rules = [(''Cosentino_TPR'', [])],
      output_template = [''UPC'']\<rparr>"

definition region_sheet :: worksheet where
  "region_sheet =
     [[PStr ''Cosentino TPR''], [], [], [],
      [PStr ''AWG Item Code'', PStr ''Description'', PStr ''Cost''],
      [PInt 101, PStr ''Beans'', PFloat (Double 5 (- 2))],
      [PInt 102, PStr ''Rice'', PFloat (Double 2 0)],
      [PInt 103, PStr ''Corn'', PInt 3],
      [PNone, PStr ''Manufacturer'', PNone, PStr ''ACME''],
      [PInt 104, PStr ''Late'', PInt 4]]"

definition surviving_pairs :: "pyval list \<Rightarrow> pyval list \<Rightarrow> (string \<times> pyval) list" where
  "surviving_pairs headers row =
     map (\<lambda>hv. (py_str (fst hv), snd hv))
         (filter (\<lambda>hv. truthy (fst hv) \<and> \<not> skipped (snd hv)) (zip headers row))"

definition duplicate_header_sheet :: worksheet where
  "duplicate_header_sheet =
     [[PStr ''AWG Item Code'', PStr ''Cost'', PStr ''Cost''],
      [PNone, PInt 5, PInt 0]]"









section \<open>Verified properties\<close>

subsection \<open>Header normalization\<close>

lemma split_ws_word_prefix:
  "\<forall>c\<in>set w. \<not> is_space c \<Longrightarrow> split_ws (w @ s) acc = split_ws s (acc @ w)"
  by (induction w arbitrary: acc) auto

lemma split_ws_words:
  "\<forall>c\<in>set acc. \<not> is_space c \<Longrightarrow> w \<in> set (split_ws s acc)
     \<Longrightarrow> w \<noteq> [] \<and> (\<forall>c\<in>set w. \<not> is_space c)"
proof (induction s arbitrary: acc)
  case Nil
  then show ?case by (auto split: if_splits)
next
  case (Cons c cs)
  show ?case
  proof (cases "is_space c")
    case True
    with Cons.prems Cons.IH [of "[]"] show ?thesis
      by (auto split: if_splits)
  next
    case False
    with Cons.prems Cons.IH [of "acc @ [c]"] show ?thesis by auto
  qed
qed

lemma is_space_blank: "is_space CHR '' ''"
  by (simp add: is_space_def)

lemma split_ws_join:
  "\<forall>w\<in>set ws. w \<noteq> [] \<and> (\<forall>c\<in>set w. \<not> is_space c) \<Longrightarrow> split_ws (join '' '' ws) [] = ws"
proof (induction "'' ''" ws rule: join.induct)
  case 1
  then show ?case by simp
next
  case (2 x)
  then have "split_ws (x @ []) [] = split_ws [] ([] @ x)"
    by (intro split_ws_word_prefix) simp
  with 2 show ?case by simp
next
  case (3 x y ys)
  then have "split_ws (x @ ('' '' @ join '' '' (y # ys))) []
               = split_ws ('' '' @ join '' '' (y # ys)) ([] @ x)"
    by (intro split_ws_word_prefix) simp
  with 3 show ?case by (simp add: is_space_blank)
qed

lemma strip_id: "s = [] \<or> (\<not> is_space (hd s) \<and> \<not> is_space (last s)) \<Longrightarrow> strip s = s"
proof (cases s)
  case Nil
  then show ?thesis by (simp add: strip_def)
next
  case (Cons c cs)
  assume "s = [] \<or> (\<not> is_space (hd s) \<and> \<not> is_space (last s))"
  with Cons have h: "\<not> is_space (hd s)" and l: "\<not> is_space (last s)" by auto
  from Cons h have "dropWhile is_space s = s" by simp
  moreover from Cons l have "\<not> is_space (hd (rev s))"
    by (metis hd_rev list.distinct(1))
  then have "dropWhile is_space (rev s) = rev s"
    by (cases "rev s") simp_all
  ultimately show ?thesis by (simp add: strip_def)
qed

lemma join_ends:
  "ws \<noteq> [] \<Longrightarrow> \<forall>w\<in>set ws. w \<noteq> [] \<Longrightarrow>
     join sep ws \<noteq> [] \<and> hd (join sep ws) = hd (hd ws) \<and> last (join sep ws) = last (last ws)"
  by (induction sep ws rule: join.induct) auto

lemma strip_join:
  assumes "\<forall>w\<in>set ws. w \<noteq> [] \<and> (\<forall>c\<in>set w. \<not> is_space c)"
  shows "strip (join '' '' ws) = join '' '' ws"
proof (cases ws)
  case Nil
  then show ?thesis by (simp add: strip_def)
next
  case (Cons x xs)
  then have ne: "ws \<noteq> []" by simp
  with assms have e: "hd (join '' '' ws) = hd (hd ws)" "last (join '' '' ws) = last (last ws)"
    using join_ends [of ws "'' ''"] by auto
  from ne assms have "hd ws \<in> set ws" "last ws \<in> set ws" by auto
  with assms have "\<not> is_space (hd (hd ws))" "\<not> is_space (last (last ws))"
    by (metis hd_in_set, metis last_in_set)
  with e show ?thesis by (intro strip_id) simp
qed

lemma normalize_words:
  "strip (join '' '' (split s)) = join '' '' (split s)"
  "split (join '' '' (split s)) = split s"
proof -
  have w: "\<forall>w\<in>set (split s). w \<noteq> [] \<and> (\<forall>c\<in>set w. \<not> is_space c)"
    unfolding split_def using split_ws_words [of "[]" _ s] by auto
  show "strip (join '' '' (split s)) = join '' '' (split s)"
    using w by (rule strip_join)
  show "split (join '' '' (split s)) = split s"
    using split_ws_join [OF w] by (simp add: split_def)
qed

text \<open>
  C9. Header-name normalization is idempotent: normalizing a normalized name changes
  nothing. It holds for every cell value a header can be, text in particular.
\<close>

theorem normalize_column_name_idempotent:
  "normalize_column_name (normalize_column_name name) = normalize_column_name name"
proof (cases "truthy name")
  case False
  then show ?thesis by (simp add: normalize_column_name_def)
next
  case True
  define t where "t = join '' '' (split (py_str name))"
  from True have n: "normalize_column_name name = PStr t"
    by (simp add: normalize_column_name_def normalize_words(1) t_def)
  have "strip (join '' '' (split t)) = t"
    unfolding t_def by (simp add: normalize_words)
  then have "normalize_column_name (PStr t) = PStr t"
    by (simp add: normalize_column_name_def)
  with n show ?thesis by simp
qed

theorem normalize_column_name_idempotent_witness:
  "normalize_column_name (normalize_column_name (PStr ''  Pack   Size '')) = PStr ''Pack Size''"
  using normalize_column_name_idempotent [of "PStr ''  Pack   Size ''"]
  by (simp add: normalize_column_name_def strip_def split_def is_space_def)


subsection \<open>Transformation rules\<close>

text \<open>
  C10. On the number 0 the rules \<open>to_number:float\<close> and \<open>to_number:int\<close> give
  \<open>None\<close>, since their test of the value comes before any parsing, and
  \<open>to_number:currency\<close>, which has no such test, gives the float 0.0.
\<close>

theorem to_number_on_zero:
  "apply_transformation strftime (PInt 0) ''to_number:float'' = PNone
   \<and> apply_transformation strftime (PInt 0) ''to_number:int'' = PNone
   \<and> apply_transformation strftime (PInt 0) ''to_number:currency'' = PFloat (Double 0 0)"
  by code_simp

theorem to_number_on_zero_witness:
  "apply_transformation (\<lambda>v fmt. fmt) (PInt 0) ''to_number:currency'' = PFloat (Double 0 0)
   \<and> py_str (PFloat (Double 0 0)) = ''0.0''"
  using to_number_on_zero [of "\<lambda>v fmt. fmt"] by simp


subsection \<open>Row projection\<close>

text \<open>
  C1. The keys of a projected row are meant to be the columns of the output template.
  With a template that has no \<open>Ad Zone Id\<close> column and a mapping whose output column
  is \<open>Ad Zone Id\<close>, the projected row has the key \<open>Ad Zone Id\<close> all the same: that
  branch assigns without the test of the target column that the other branch makes.
\<close>

theorem ad_zone_id_added_outside_template:
  "map_data_to_output strftime [''UPC''] [[(''AWG Item Code'', PInt 5)]]
     [\<lparr>input_column_name = ''N/A'', output_column_name = ''Ad Zone Id'',
       transformation_rule = ''none'', mapping_notes = PNone\<rparr>] ''Z''
   = [[(''UPC'', PStr []), (''Ad Zone Id'', PStr ''Z'')]]"
  by code_simp


subsection \<open>Zone selection\<close>

text \<open>
  C6. The probe for a marker looks at offsets 1 to 14 to the right of a zone label, where
  the comment in the code announces 15 columns: a marker 15 columns to the right of the
  label is not seen, one 14 columns to the right is.
\<close>

theorem zone_marker_at_offset_15_missed:
  "extract_ad_zone_id (zone_sheet 15) = []
   \<and> extract_ad_zone_id (zone_sheet 14) = ''TPR All Stores''"
  by code_simp

subsection \<open>Region locator\<close>

lemma find_upt_Some:
  "List.find P [a..<b] = Some s \<Longrightarrow> a \<le> s \<and> s < b \<and> P s \<and> (\<forall>r. a \<le> r \<and> r < s \<longrightarrow> \<not> P r)"
proof -
  assume "List.find P [a..<b] = Some s"
  then obtain i where i: "i < length [a..<b]" "P ([a..<b] ! i)" "s = [a..<b] ! i"
    "\<forall>j<i. \<not> P ([a..<b] ! j)"
    unfolding find_Some_iff by blast
  then have s: "s = a + i" "a + i < b" by auto
  have "\<not> P r" if "a \<le> r" "r < s" for r
  proof -
    from that s have "r - a < i" by arith
    with i(4) have "\<not> P ([a..<b] ! (r - a))" by blast
    moreover from that s have "[a..<b] ! (r - a) = r" by simp
    ultimately show ?thesis by simp
  qed
  with i s show ?thesis by auto
qed

lemma find_upt_None:
  "List.find P [a..<b] = None \<Longrightarrow> \<forall>r. a \<le> r \<and> r < b \<longrightarrow> \<not> P r"
  by (auto simp: find_None_iff)

lemma max_column_ge: "row \<in> set sheet \<Longrightarrow> length row \<le> max_column sheet"
proof -
  assume "row \<in> set sheet"
  then have "length row \<in> set (1 # map length sheet)" by simp
  then have "length row \<le> Max (set (1 # map length sheet))"
    by (intro Max_ge) simp_all
  then show ?thesis
    by (simp only: max_column_def Max.set_eq_fold)
qed

lemma cell_value_in:
  "cell_value sheet r c \<noteq> PNone \<Longrightarrow> \<exists>row\<in>set sheet. cell_value sheet r c \<in> set row"
proof -
  assume ne: "cell_value sheet r c \<noteq> PNone"
  then have b: "1 \<le> r" "r \<le> length sheet" "1 \<le> c" "c \<le> length (sheet ! (r - 1))"
    by (auto simp: cell_value_def split: if_splits)
  then have v: "cell_value sheet r c = sheet ! (r - 1) ! (c - 1)"
    by (simp add: cell_value_def)
  from b have "sheet ! (r - 1) \<in> set sheet" by simp
  moreover from b have "sheet ! (r - 1) ! (c - 1) \<in> set (sheet ! (r - 1))" by simp
  ultimately show ?thesis using v by metis
qed

lemma row_values_nth:
  "c < max_column sheet \<Longrightarrow> row_values sheet r ! c = cell_value sheet r (Suc c)"
  by (simp add: row_values_def nth_map del: upt_Suc)

lemma length_row_values: "length (row_values sheet r) = max_column sheet"
  by (simp add: row_values_def del: upt_Suc)

lemma contains_nonempty: "contains s sub \<Longrightarrow> sub \<noteq> [] \<Longrightarrow> s \<noteq> []"
  by (cases s) auto

lemma is_stop_marker_truthy: "is_stop_marker v \<Longrightarrow> truthy v"
  by (cases v) (auto simp: is_stop_marker_def lower_def dest: contains_nonempty)

lemma cell_value_beyond:
  "max_column sheet < c \<Longrightarrow> cell_value sheet r c = PNone"
proof -
  assume c: "max_column sheet < c"
  have "length (sheet ! (r - 1)) < c" if "1 \<le> r" "r \<le> length sheet"
  proof -
    from that have "sheet ! (r - 1) \<in> set sheet" by simp
    from max_column_ge [OF this] c show ?thesis by simp
  qed
  then show ?thesis by (auto simp: cell_value_def)
qed

lemma is_stop_row_iff:
  "is_stop_row (row_values sheet r) \<longleftrightarrow> is_stop_marker (cell_value sheet r 2)"
proof (cases "1 < max_column sheet")
  case True
  then have "row_values sheet r ! 1 = cell_value sheet r 2"
    using row_values_nth [of 1 sheet r] by (simp add: numeral_2_eq_2)
  with True show ?thesis
    using is_stop_marker_truthy [of "cell_value sheet r 2"]
    by (auto simp: is_stop_row_def length_row_values is_stop_marker_def)
next
  case False
  then have "cell_value sheet r 2 = PNone" by (intro cell_value_beyond) simp
  with False show ?thesis
    by (simp add: is_stop_row_def length_row_values is_stop_marker_def)
qed

lemma find_awg_None:
  assumes "\<forall>row\<in>set sheet. \<forall>cell\<in>set row. \<forall>s. cell = PStr s \<longrightarrow> \<not> contains s ''AWG Item Code''"
  shows "find_awg_header_row sheet = None"
proof -
  have "\<not> is_awg_cell (cell_value sheet r c)" for r c
  proof (cases "cell_value sheet r c = PNone")
    case True
    then show ?thesis by (simp add: is_awg_cell_def)
  next
    case False
    from cell_value_in [OF this] assms show ?thesis
      by (cases "cell_value sheet r c") (auto simp: is_awg_cell_def)
  qed
  then show ?thesis
    by (auto simp: find_awg_header_row_def find_None_iff row_values_def list_ex_iff simp del: upt_Suc)
qed

lemma cell_value_bounds:
  "cell_value sheet r c \<noteq> PNone \<Longrightarrow> 1 \<le> r \<and> r \<le> length sheet \<and> 1 \<le> c \<and> c \<le> max_column sheet"
proof -
  assume ne: "cell_value sheet r c \<noteq> PNone"
  then have b: "1 \<le> r" "r \<le> length sheet" "1 \<le> c" "c \<le> length (sheet ! (r - 1))"
    by (auto simp: cell_value_def split: if_splits)
  then have "sheet ! (r - 1) \<in> set sheet" by simp
  from max_column_ge [OF this] b show ?thesis by simp
qed

lemma row_has_awg_iff:
  "list_ex is_awg_cell (row_values sheet r) \<longleftrightarrow> (\<exists>c. is_awg_cell (cell_value sheet r c))"
proof
  assume "list_ex is_awg_cell (row_values sheet r)"
  then show "\<exists>c. is_awg_cell (cell_value sheet r c)"
    by (auto simp: list_ex_iff row_values_def simp del: upt_Suc)
next
  assume "\<exists>c. is_awg_cell (cell_value sheet r c)"
  then obtain c where c: "is_awg_cell (cell_value sheet r c)" by blast
  then have "cell_value sheet r c \<noteq> PNone" by (auto simp: is_awg_cell_def)
  from cell_value_bounds [OF this] have "c \<in> set [1..<Suc (max_column sheet)]"
    by (simp del: upt_Suc)
  with c show "list_ex is_awg_cell (row_values sheet r)"
    unfolding list_ex_iff row_values_def by (metis imageI set_map)
qed

text \<open>
  C5. On a worksheet none of whose text cells contains \<open>AWG Item Code\<close>, region
  extraction raises the error for a missing header row and returns nothing: no headers
  and no data rows. A request that has got as far as the extraction answers it with
  status 400, the client-input error.
\<close>

theorem missing_header_marker_fails:
  assumes "\<forall>row\<in>set sheet. \<forall>cell\<in>set row. \<forall>s. cell = PStr s \<longrightarrow> \<not> contains s ''AWG Item Code''"
  shows "extract_cosentino_data sheet
           = Inl (ValueError ''Could not find 'AWG Item Code' header row'')
         \<and> (\<forall>fp index cname name sheet_name.
               file_mapping_index fp = Some index
               \<and> get_mapping_sheet_by_company index cname ''Deal Submissions'' = PStr sheet_name
               \<and> contains (lower sheet_name) ''cosentino''
               \<longrightarrow> process_file strftime True True fp sheet cname name
                     = Inl (HTTPException 400 ''Could not find 'AWG Item Code' header row''))"
proof -
  have e: "extract_cosentino_data sheet
             = Inl (ValueError ''Could not find 'AWG Item Code' header row'')"
    using find_awg_None [OF assms] by (simp add: extract_cosentino_data_def)
  have "process_file strftime True True fp sheet cname name
          = Inl (HTTPException 400 ''Could not find 'AWG Item Code' header row'')"
    if "file_mapping_index fp = Some index"
      "get_mapping_sheet_by_company index cname ''Deal Submissions'' = PStr sheet_name"
      "contains (lower sheet_name) ''cosentino''"
    for fp index cname name sheet_name
  proof -
    from that(3) have "sheet_name \<noteq> []"
      using contains_nonempty [of "lower sheet_name" "''cosentino''"] by (auto simp: lower_def)
    with that e show ?thesis
      by (simp add: process_file_def process_file_body_def Let_def)
  qed
  with e show ?thesis by blast
qed

theorem missing_header_marker_fails_witness:
  "extract_cosentino_data no_marker_sheet
     = Inl (ValueError ''Could not find 'AWG Item Code' header row'')
   \<and> process_file (\<lambda>v fmt. fmt) True True sample_processor no_marker_sheet ''Acme'' ''Deal 1''
     = Inl (HTTPException 400 ''Could not find 'AWG Item Code' header row'')"
proof -
  have h: "\<forall>row\<in>set no_marker_sheet. \<forall>cell\<in>set row. \<forall>s. cell = PStr s
             \<longrightarrow> \<not> contains s ''AWG Item Code''"
    by (simp add: no_marker_sheet_def)
  have i: "file_mapping_index sample_processor = Some (the (file_mapping_index sample_processor))"
    by (simp add: sample_processor_def)
  have g: "get_mapping_sheet_by_company (the (file_mapping_index sample_processor)) ''Acme''
             ''Deal Submissions'' = PStr ''Cosentino_TPR''"
    by (simp add: sample_processor_def)
  have c: "contains (lower ''Cosentino_TPR'') ''cosentino''"
    by code_simp
  from missing_header_marker_fails [OF h] i g c show ?thesis by blast
qed

subsection \<open>Mapping repository\<close>

lemma get_mapping_first:
  "\<forall>e\<in>set pre. \<not> (company e = cname \<and> category e = PStr cat) \<Longrightarrow>
   company m = cname \<Longrightarrow> category m = PStr cat \<Longrightarrow>
   get_mapping_sheet_by_company (pre @ m # post) cname cat = mapping_sheet_name m"
  by (induction pre) auto

lemma get_mapping_none:
  "\<forall>e\<in>set index. \<not> (company e = cname \<and> category e = PStr cat) \<Longrightarrow>
   get_mapping_sheet_by_company index cname cat = PNone"
  by (induction index) auto

text \<open>
  C8. \<open>get_mapping_sheet_by_company\<close> returns the sheet name of the first index
  entry whose company and category are both equal to the ones asked for (equality of
  strings, so case matters), and \<open>None\<close> when no entry matches both. When nothing is
  resolved for the company, the body of \<open>process_file\<close> raises the configuration
  error, an \<open>HTTPException\<close> with status 400 that names the company, and no result is
  returned. The handler at the end of the function has no clause that lets an
  \<open>HTTPException\<close> pass, as the handler of the email endpoint has: it catches this
  one as it catches any exception, and the response is the generic processing failure
  with status 500, whose detail quotes the status and the message of the error raised.
\<close>

theorem resolve_first_match_else_request_fails:
  "(\<forall>pre m post. index = pre @ m # post
       \<and> (\<forall>e\<in>set pre. \<not> (company e = cname \<and> category e = PStr cat))
       \<and> company m = cname \<and> category m = PStr cat
       \<longrightarrow> get_mapping_sheet_by_company index cname cat = mapping_sheet_name m)
   \<and> ((\<forall>e\<in>set index. \<not> (company e = cname \<and> category e = PStr cat))
       \<longrightarrow> get_mapping_sheet_by_company index cname cat = PNone)
   \<and> (\<forall>fp sheet name.
         file_mapping_index fp = Some index
         \<and> \<not> truthy (get_mapping_sheet_by_company index cname ''Deal Submissions'')
         \<longrightarrow> process_file_body strftime True True fp sheet cname name
               = Inl (HTTPException 400
                   (''No mapping configuration found for company '' @ [CHR 0x27] @ cname
                      @ [CHR 0x27]
                      @ '' in Deal Submissions category. Please check your mapping rules.''))
           \<and> process_file strftime True True fp sheet cname name
               = Inl (HTTPException 500
                   (''Error processing file: 400: No mapping configuration found for company ''
                      @ [CHR 0x27] @ cname @ [CHR 0x27]
                      @ '' in Deal Submissions category. Please check your mapping rules.'')))"
proof (intro conjI allI impI)
  fix pre m post
  assume "index = pre @ m # post
       \<and> (\<forall>e\<in>set pre. \<not> (company e = cname \<and> category e = PStr cat))
       \<and> company m = cname \<and> category m = PStr cat"
  then show "get_mapping_sheet_by_company index cname cat = mapping_sheet_name m"
    using get_mapping_first [of pre cname cat m post] by blast
next
  assume "\<forall>e\<in>set index. \<not> (company e = cname \<and> category e = PStr cat)"
  then show "get_mapping_sheet_by_company index cname cat = PNone"
    by (rule get_mapping_none)
next
  fix fp :: file_processor and sheet name
  assume a: "file_mapping_index fp = Some index
         \<and> \<not> truthy (get_mapping_sheet_by_company index cname ''Deal Submissions'')"
  then show b: "process_file_body strftime True True fp sheet cname name
               = Inl (HTTPException 400
                   (''No mapping configuration found for company '' @ [CHR 0x27] @ cname
                      @ [CHR 0x27]
                      @ '' in Deal Submissions category. Please check your mapping rules.''))"
    by (simp add: process_file_body_def)
  have "nat_digits 400 = ''400''"
    by code_simp
  with b show "process_file strftime True True fp sheet cname name
               = Inl (HTTPException 500
                   (''Error processing file: 400: No mapping configuration found for company ''
                      @ [CHR 0x27] @ cname @ [CHR 0x27]
                      @ '' in Deal Submissions category. Please check your mapping rules.''))"
    by (simp add: process_file_def)
qed

theorem resolve_first_match_else_request_fails_witness:
  "get_mapping_sheet_by_company (the (file_mapping_index sample_processor)) ''Acme''
     ''Deal Submissions'' = PStr ''Cosentino_TPR''
   \<and> get_mapping_sheet_by_company (the (file_mapping_index sample_processor)) ''acme''
     ''Deal Submissions'' = PNone
   \<and> process_file_body (\<lambda>v fmt. fmt) True True sample_processor region_sheet ''acme''
       ''Deal 1''
     = Inl (HTTPException 400 (''No mapping configuration found for company '' @ [CHR 0x27]
              @ ''acme'' @ [CHR 0x27]
              @ '' in Deal Submissions category. Please check your mapping rules.''))
   \<and> process_file (\<lambda>v fmt. fmt) True True sample_processor region_sheet ''acme'' ''Deal 1''
     = Inl (HTTPException 500
              (''Error processing file: 400: No mapping configuration found for company ''
                 @ [CHR 0x27] @ ''acme'' @ [CHR 0x27]
                 @ '' in Deal Submissions category. Please check your mapping rules.''))"
proof -
  let ?index = "the (file_mapping_index sample_processor)"
  have i: "file_mapping_index sample_processor = Some ?index"
    by (simp add: sample_processor_def)
  have s: "?index = [hd ?index] @ hd (tl ?index) # tl (tl ?index)"
    by (simp add: sample_processor_def)
  have a: "\<forall>e\<in>set [hd ?index]. \<not> (company e = ''Acme'' \<and> category e = PStr ''Deal Submissions'')"
    "company (hd (tl ?index)) = ''Acme''" "category (hd (tl ?index)) = PStr ''Deal Submissions''"
    "mapping_sheet_name (hd (tl ?index)) = PStr ''Cosentino_TPR''"
    by (simp_all add: sample_processor_def)
  have n: "\<forall>e\<in>set ?index. \<not> (company e = ''acme'' \<and> category e = PStr ''Deal Submissions'')"
    by (simp add: sample_processor_def)
  note t1 = resolve_first_match_else_request_fails
              [of ?index "''Acme''" "''Deal Submissions''" "\<lambda>v fmt. fmt"]
  note t2 = resolve_first_match_else_request_fails
              [of ?index "''acme''" "''Deal Submissions''" "\<lambda>v fmt. fmt"]
  from t1 s a have 1: "get_mapping_sheet_by_company ?index ''Acme'' ''Deal Submissions''
                         = PStr ''Cosentino_TPR''"
    by metis
  from t2 n have 2: "get_mapping_sheet_by_company ?index ''acme'' ''Deal Submissions'' = PNone"
    by blast
  then have "\<not> truthy (get_mapping_sheet_by_company ?index ''acme'' ''Deal Submissions'')"
    by simp
  with t2 i have 3:
    "process_file_body (\<lambda>v fmt. fmt) True True sample_processor region_sheet ''acme'' ''Deal 1''
       = Inl (HTTPException 400 (''No mapping configuration found for company '' @ [CHR 0x27]
                @ ''acme'' @ [CHR 0x27]
                @ '' in Deal Submissions category. Please check your mapping rules.''))
     \<and> process_file (\<lambda>v fmt. fmt) True True sample_processor region_sheet ''acme'' ''Deal 1''
       = Inl (HTTPException 500
                (''Error processing file: 400: No mapping configuration found for company ''
                   @ [CHR 0x27] @ ''acme'' @ [CHR 0x27]
                   @ '' in Deal Submissions category. Please check your mapping rules.''))"
    by blast
  from 1 2 3 show ?thesis by blast
qed

subsection \<open>Data region\<close>

lemma find_upt_SomeI:
  assumes "a \<le> s" "s < b" "P s" "\<forall>r. a \<le> r \<and> r < s \<longrightarrow> \<not> P r"
  shows "List.find P [a..<b] = Some s"
proof -
  have "s - a < length [a..<b]" using assms by simp
  moreover have "[a..<b] ! (s - a) = s" using assms by simp
  moreover have "\<forall>j<s - a. \<not> P ([a..<b] ! j)"
  proof (intro allI impI)
    fix j assume j: "j < s - a"
    with assms have "[a..<b] ! j = a + j" by simp
    with j assms(4) show "\<not> P ([a..<b] ! j)" by simp
  qed
  ultimately show ?thesis
    using assms(3) unfolding find_Some_iff by metis
qed

lemma find_upt_NoneI:
  "\<forall>r. a \<le> r \<and> r < b \<longrightarrow> \<not> P r \<Longrightarrow> List.find P [a..<b] = None"
  by (auto simp: find_None_iff)

lemma find_awg_first:
  assumes "\<exists>c. is_awg_cell (cell_value sheet h c)"
    and "\<forall>r c. r < h \<longrightarrow> \<not> is_awg_cell (cell_value sheet r c)"
  shows "find_awg_header_row sheet = Some h"
proof -
  from assms(1) obtain c where c: "is_awg_cell (cell_value sheet h c)" by blast
  then have "cell_value sheet h c \<noteq> PNone" by (auto simp: is_awg_cell_def)
  from cell_value_bounds [OF this] have b: "1 \<le> h" "h \<le> length sheet" by simp_all
  then have "h < Suc (max_row sheet)" by (simp add: max_row_def)
  moreover from assms(1) have "list_ex is_awg_cell (row_values sheet h)"
    by (simp add: row_has_awg_iff)
  moreover from assms(2) have "\<forall>r. 1 \<le> r \<and> r < h \<longrightarrow> \<not> list_ex is_awg_cell (row_values sheet r)"
    by (simp add: row_has_awg_iff)
  ultimately show ?thesis
    unfolding find_awg_header_row_def using b(1) by (intro find_upt_SomeI) simp_all
qed

text \<open>
  C3. Let row \<open>h\<close> be the first row of the worksheet with a cell containing the header
  marker. The stop row is the first row below \<open>h\<close> whose cell in column B is text
  containing \<open>manufacturer\<close> in any case: if \<open>s\<close> is that row, the extraction returns
  \<open>h\<close> and \<open>s\<close> as the two indices, and its data rows are the row records of the
  rows \<open>h + 1\<close> to \<open>s - 1\<close>, in this order, those without any value left out. If no
  row below \<open>h\<close> has such a cell, no stop row is returned and the data rows are taken
  from all rows \<open>h + 1\<close> to the last row of the sheet. On the example sheet, with the
  header in row 5 and \<open>Manufacturer\<close> in column B of row 9, the data rows are those of
  rows 6 to 8 and the indices are 5 and 9.
\<close>

theorem data_region_between_header_and_stop_row:
  assumes "\<exists>c. is_awg_cell (cell_value sheet h c)"
    and "\<forall>r c. r < h \<longrightarrow> \<not> is_awg_cell (cell_value sheet r c)"
  shows "(\<forall>s. h < s \<and> s \<le> max_row sheet \<and> is_stop_marker (cell_value sheet s 2)
              \<and> (\<forall>r. h < r \<and> r < s \<longrightarrow> \<not> is_stop_marker (cell_value sheet r 2))
            \<longrightarrow> extract_cosentino_data sheet
                  = Inr (map py_str (filter truthy (map header_cell (row_values sheet h))),
                         filter any_values
                           (map (\<lambda>r. build_row (map header_cell (row_values sheet h))
                                               (row_values sheet r)) [h + 1..<s]),
                         h, Some s))
         \<and> ((\<forall>r. h < r \<and> r \<le> max_row sheet \<longrightarrow> \<not> is_stop_marker (cell_value sheet r 2))
            \<longrightarrow> extract_cosentino_data sheet
                  = Inr (map py_str (filter truthy (map header_cell (row_values sheet h))),
                         filter any_values
                           (map (\<lambda>r. build_row (map header_cell (row_values sheet h))
                                               (row_values sheet r)) [h + 1..<max_row sheet + 1]),
                         h, None))"
proof (intro conjI allI impI)
  note h = find_awg_first [OF assms]
  fix s
  assume a: "h < s \<and> s \<le> max_row sheet \<and> is_stop_marker (cell_value sheet s 2)
              \<and> (\<forall>r. h < r \<and> r < s \<longrightarrow> \<not> is_stop_marker (cell_value sheet r 2))"
  then have "find_manufacturer_stop_row sheet (h + 1) = Some s"
    unfolding find_manufacturer_stop_row_def
    by (intro find_upt_SomeI) (simp_all add: is_stop_row_iff)
  with h show "extract_cosentino_data sheet
                  = Inr (map py_str (filter truthy (map header_cell (row_values sheet h))),
                         filter any_values
                           (map (\<lambda>r. build_row (map header_cell (row_values sheet h))
                                               (row_values sheet r)) [h + 1..<s]),
                         h, Some s)"
    by (simp add: extract_cosentino_data_def Let_def del: upt_Suc)
next
  note h = find_awg_first [OF assms]
  assume a: "\<forall>r. h < r \<and> r \<le> max_row sheet \<longrightarrow> \<not> is_stop_marker (cell_value sheet r 2)"
  then have "find_manufacturer_stop_row sheet (h + 1) = None"
    unfolding find_manufacturer_stop_row_def
    by (intro find_upt_NoneI) (simp add: is_stop_row_iff)
  with h show "extract_cosentino_data sheet
                  = Inr (map py_str (filter truthy (map header_cell (row_values sheet h))),
                         filter any_values
                           (map (\<lambda>r. build_row (map header_cell (row_values sheet h))
                                               (row_values sheet r)) [h + 1..<max_row sheet + 1]),
                         h, None)"
    by (simp add: extract_cosentino_data_def Let_def del: upt_Suc)
qed

lemma below_5: "r < (5::nat) \<Longrightarrow> r = 0 \<or> r = 1 \<or> r = 2 \<or> r = 3 \<or> r = 4"
  by arith

lemma between_5_9: "(5::nat) < r \<Longrightarrow> r < 9 \<Longrightarrow> r = 6 \<or> r = 7 \<or> r = 8"
  by arith

theorem data_region_between_header_and_stop_row_witness:
  "extract_cosentino_data region_sheet
     = Inr ([''AWG Item Code'', ''Description'', ''Cost''],
            [[(''AWG Item Code'', PInt 101), (''Description'', PStr ''Beans''),
              (''Cost'', PFloat (Double 5 (- 2)))],
             [(''AWG Item Code'', PInt 102), (''Description'', PStr ''Rice''),
              (''Cost'', PFloat (Double 2 0))],
             [(''AWG Item Code'', PInt 103), (''Description'', PStr ''Corn''),
              (''Cost'', PInt 3)]],
            5, Some 9)"
proof -
  have 1: "\<exists>c. is_awg_cell (cell_value region_sheet 5 c)"
  proof
    show "is_awg_cell (cell_value region_sheet 5 1)" by code_simp
  qed
  have "\<not> list_ex is_awg_cell (row_values region_sheet r)" if "r < 5" for r
    using below_5 [OF that] by (elim disjE; hypsubst; code_simp)
  then have 2: "\<forall>r c. r < 5 \<longrightarrow> \<not> is_awg_cell (cell_value region_sheet r c)"
    using row_has_awg_iff by blast
  have 3: "(5::nat) < 9 \<and> 9 \<le> max_row region_sheet
           \<and> is_stop_marker (cell_value region_sheet 9 2)"
    by code_simp
  have "\<not> is_stop_marker (cell_value region_sheet r 2)" if "5 < r" "r < 9" for r
    using between_5_9 [OF that] by (elim disjE; hypsubst; code_simp)
  then have 4: "\<forall>r. 5 < r \<and> r < 9 \<longrightarrow> \<not> is_stop_marker (cell_value region_sheet r 2)"
    by blast
  have 5: "(map py_str (filter truthy (map header_cell (row_values region_sheet 5))),
            filter any_values
              (map (\<lambda>r. build_row (map header_cell (row_values region_sheet 5))
                                  (row_values region_sheet r)) [5 + 1..<9]),
            5::nat, Some (9::nat))
           = ([''AWG Item Code'', ''Description'', ''Cost''],
            [[(''AWG Item Code'', PInt 101), (''Description'', PStr ''Beans''),
              (''Cost'', PFloat (Double 5 (- 2)))],
             [(''AWG Item Code'', PInt 102), (''Description'', PStr ''Rice''),
              (''Cost'', PFloat (Double 2 0))],
             [(''AWG Item Code'', PInt 103), (''Description'', PStr ''Corn''),
              (''Cost'', PInt 3)]],
            5, Some 9)"
    by code_simp
  from data_region_between_header_and_stop_row [OF 1 2] 3 4
  have "extract_cosentino_data region_sheet
          = Inr (map py_str (filter truthy (map header_cell (row_values region_sheet 5))),
            filter any_values
              (map (\<lambda>r. build_row (map header_cell (row_values region_sheet 5))
                                  (row_values region_sheet r)) [5 + 1..<9]),
            5, Some 9)"
    by blast
  with 5 show ?thesis by simp
qed

subsection \<open>Row records\<close>

lemma update_fresh: "k \<notin> fst ` set al \<Longrightarrow> AList.update k v al = al @ [(k, v)]"
  by (induction al) auto

lemma fold_row_step_map_of:
  "map_of (fold row_step xs acc)
     = map_of (rev (map (\<lambda>hv. (py_str (fst hv), snd hv))
                        (filter (\<lambda>hv. truthy (fst hv) \<and> \<not> skipped (snd hv)) xs)) @ acc)"
proof (induction xs arbitrary: acc)
  case Nil
  then show ?case by simp
next
  case (Cons x xs)
  show ?case
  proof (cases "truthy (fst x) \<and> \<not> skipped (snd x)")
    case True
    then have "row_step x acc = AList.update (py_str (fst x)) (snd x) acc"
      by (simp add: row_step_def)
    with True show ?thesis
      by (simp add: Cons.IH update_conv')
  next
    case False
    then have "row_step x acc = acc"
      by (auto simp: row_step_def)
    with False show ?thesis by (auto simp: Cons.IH)
  qed
qed

lemma fold_row_step_distinct:
  "distinct (map fst acc) \<Longrightarrow> distinct (map fst (fold row_step xs acc))"
proof (induction xs arbitrary: acc)
  case Nil
  then show ?case by simp
next
  case (Cons x xs)
  from Cons.prems have "distinct (map fst (row_step x acc))"
    by (simp add: row_step_def distinct_update)
  from Cons.IH [OF this] show ?case by simp
qed

lemma fold_row_step_list:
  "distinct (map fst (acc @ map (\<lambda>hv. (py_str (fst hv), snd hv))
                              (filter (\<lambda>hv. truthy (fst hv) \<and> \<not> skipped (snd hv)) xs)))
   \<Longrightarrow> fold row_step xs acc
         = acc @ map (\<lambda>hv. (py_str (fst hv), snd hv))
                     (filter (\<lambda>hv. truthy (fst hv) \<and> \<not> skipped (snd hv)) xs)"
proof (induction xs arbitrary: acc)
  case Nil
  then show ?case by simp
next
  case (Cons x xs)
  show ?case
  proof (cases "truthy (fst x) \<and> \<not> skipped (snd x)")
    case True
    with Cons.prems have "py_str (fst x) \<notin> fst ` set acc" by auto
    then have u: "AList.update (py_str (fst x)) (snd x) acc = acc @ [(py_str (fst x), snd x)]"
      by (rule update_fresh)
    from Cons.prems True
    have "distinct (map fst ((acc @ [(py_str (fst x), snd x)])
            @ map (\<lambda>hv. (py_str (fst hv), snd hv))
                  (filter (\<lambda>hv. truthy (fst hv) \<and> \<not> skipped (snd hv)) xs)))"
      by simp
    moreover from True u have "row_step x acc = acc @ [(py_str (fst x), snd x)]"
      by (simp add: row_step_def)
    ultimately show ?thesis using True Cons.IH [of "acc @ [(py_str (fst x), snd x)]"]
      by simp
  next
    case False
    then have "row_step x acc = acc"
      by (auto simp: row_step_def)
    with False Cons.prems Cons.IH [of acc] show ?thesis by auto
  qed
qed

lemma any_values_map_of:
  assumes d: "distinct (map fst rd)"
  shows "any_values rd \<longleftrightarrow> (\<exists>k v. map_of rd k = Some v \<and> truthy v)"
proof
  assume "any_values rd"
  then obtain kv where "kv \<in> set rd" "truthy (snd kv)"
    by (auto simp: any_values_def list_ex_iff)
  with d have "map_of rd (fst kv) = Some (snd kv) \<and> truthy (snd kv)" by simp
  then show "\<exists>k v. map_of rd k = Some v \<and> truthy v" by blast
next
  assume "\<exists>k v. map_of rd k = Some v \<and> truthy v"
  then obtain k v where "map_of rd k = Some v" "truthy v" by blast
  then have "(k, v) \<in> set rd" "truthy (snd (k, v))" by (simp_all add: map_of_SomeD)
  then show "any_values rd"
    unfolding any_values_def list_ex_iff by (metis imageI set_map)
qed

lemma extract_data_rows:
  assumes "extract_cosentino_data sheet = Inr (hs, data, h, stop)"
  shows "data = map (\<lambda>r. build_row (map header_cell (row_values sheet h)) (row_values sheet r))
                  (filter (\<lambda>r. any_values (build_row (map header_cell (row_values sheet h))
                                                     (row_values sheet r)))
                     [h + 1..<(case stop of Some s \<Rightarrow> s | None \<Rightarrow> max_row sheet + 1)])"
  using assms
  by (auto simp: extract_cosentino_data_def Let_def filter_map comp_def
           split: option.splits simp del: upt_Suc)

text \<open>
  C4. A cell under a valid header survives when its value is not \<open>None\<close> and its string
  form starts with neither \<open>#\<close> nor \<open>=\<close>; \<open>surviving_pairs\<close> are the header names
  with the surviving values of a row, from left to right. The row record is a dictionary:
  it has, for each header name, the value of the rightmost surviving cell under a header
  of that name. A row is kept when some value of its record is truthy. When the header
  names of the surviving cells are distinct, the record is the list of the surviving pairs
  and the row is kept when some surviving value is truthy. The data rows are the records
  of the kept rows of the region, in the order of the worksheet.
\<close>

theorem row_kept_iff_record_has_truthy_value:
  "map_of (build_row headers row) = map_of (rev (surviving_pairs headers row))
   \<and> (\<forall>k v. (k, v) \<in> set (surviving_pairs headers row)
         \<longleftrightarrow> (\<exists>i. i < length headers \<and> i < length row \<and> truthy (headers ! i)
                  \<and> k = py_str (headers ! i) \<and> v = row ! i \<and> v \<noteq> PNone
                  \<and> \<not> startswith (py_str v) ''#'' \<and> \<not> startswith (py_str v) ''=''))
   \<and> (any_values (build_row headers row)
        \<longleftrightarrow> (\<exists>k v. map_of (rev (surviving_pairs headers row)) k = Some v \<and> truthy v))
   \<and> (distinct (map fst (surviving_pairs headers row))
        \<longrightarrow> build_row headers row = surviving_pairs headers row
            \<and> (any_values (build_row headers row)
                 \<longleftrightarrow> (\<exists>kv\<in>set (surviving_pairs headers row). truthy (snd kv))))
   \<and> (\<forall>hs data h stop. extract_cosentino_data sheet = Inr (hs, data, h, stop)
         \<longrightarrow> data = map (\<lambda>r. build_row (map header_cell (row_values sheet h))
                                       (row_values sheet r))
                       (filter (\<lambda>r. any_values (build_row (map header_cell (row_values sheet h))
                                                          (row_values sheet r)))
                          [h + 1..<(case stop of Some s \<Rightarrow> s | None \<Rightarrow> max_row sheet + 1)]))"
proof (intro conjI allI impI)
  show m: "map_of (build_row headers row) = map_of (rev (surviving_pairs headers row))"
    using fold_row_step_map_of [of "zip headers row" "[]"]
    by (simp add: build_row_def surviving_pairs_def)
  have "distinct (map fst (build_row headers row))"
    unfolding build_row_def by (rule fold_row_step_distinct) simp
  from any_values_map_of [OF this] m
  show "any_values (build_row headers row)
        \<longleftrightarrow> (\<exists>k v. map_of (rev (surviving_pairs headers row)) k = Some v \<and> truthy v)"
    by simp
next
  fix k v
  show "(k, v) \<in> set (surviving_pairs headers row)
         \<longleftrightarrow> (\<exists>i. i < length headers \<and> i < length row \<and> truthy (headers ! i)
                  \<and> k = py_str (headers ! i) \<and> v = row ! i \<and> v \<noteq> PNone
                  \<and> \<not> startswith (py_str v) ''#'' \<and> \<not> startswith (py_str v) ''='')"
    unfolding surviving_pairs_def skipped_def
    by (auto simp: set_zip image_iff)
next
  assume d: "distinct (map fst (surviving_pairs headers row))"
  then show b: "build_row headers row = surviving_pairs headers row"
    using fold_row_step_list [of "[]" "zip headers row"]
    by (simp add: build_row_def surviving_pairs_def)
  show "any_values (build_row headers row)
          \<longleftrightarrow> (\<exists>kv\<in>set (surviving_pairs headers row). truthy (snd kv))"
    unfolding b by (auto simp: any_values_def list_ex_iff)
next
  fix hs data h stop
  assume "extract_cosentino_data sheet = Inr (hs, data, h, stop)"
  then show "data = map (\<lambda>r. build_row (map header_cell (row_values sheet h))
                                       (row_values sheet r))
                       (filter (\<lambda>r. any_values (build_row (map header_cell (row_values sheet h))
                                                          (row_values sheet r)))
                          [h + 1..<(case stop of Some s \<Rightarrow> s | None \<Rightarrow> max_row sheet + 1)])"
    by (rule extract_data_rows)
qed

theorem row_kept_iff_record_has_truthy_value_witness:
  "build_row [PStr ''AWG Item Code'', PNone, PStr ''Cost'', PStr ''Total'']
             [PInt 101, PStr ''note'', PInt 0, PStr ''=C2*2'']
     = [(''AWG Item Code'', PInt 101), (''Cost'', PInt 0)]
   \<and> any_values (build_row [PStr ''AWG Item Code'', PNone, PStr ''Cost'', PStr ''Total'']
                            [PInt 101, PStr ''note'', PInt 0, PStr ''=C2*2''])"
proof -
  let ?hs = "[PStr ''AWG Item Code'', PNone, PStr ''Cost'', PStr ''Total'']"
  let ?row = "[PInt 101, PStr ''note'', PInt 0, PStr ''=C2*2'']"
  have s: "surviving_pairs ?hs ?row = [(''AWG Item Code'', PInt 101), (''Cost'', PInt 0)]"
    by code_simp
  then have d: "distinct (map fst (surviving_pairs ?hs ?row))"
    by simp
  from row_kept_iff_record_has_truthy_value [of ?hs ?row region_sheet] d
  have "build_row ?hs ?row = surviving_pairs ?hs ?row"
    and "any_values (build_row ?hs ?row)
           \<longleftrightarrow> (\<exists>kv\<in>set (surviving_pairs ?hs ?row). truthy (snd kv))"
    by blast+
  with s show ?thesis by simp
qed

text \<open>
  With two header cells of the same name a truthy surviving value can be replaced in the
  record by a falsy one to its right: the row \<open>5, 0\<close> under the headers \<open>Cost\<close>,
  \<open>Cost\<close> has the surviving value 5 and is left out of the data rows.
\<close>

theorem duplicate_header_row_dropped:
  "extract_cosentino_data duplicate_header_sheet
     = Inr ([''AWG Item Code'', ''Cost'', ''Cost''], [], 1, None)
   \<and> surviving_pairs (map header_cell (row_values duplicate_header_sheet 1))
        (row_values duplicate_header_sheet 2) = [(''Cost'', PInt 5), (''Cost'', PInt 0)]
   \<and> truthy (PInt 5)"
  by code_simp

subsection \<open>Deal header\<close>
















end
